theory Spec2Isabelle
  imports Complex_Main
begin

section \<open>Floating-point values and Python errors\<close>

text \<open>
  The two scripts compute on numpy arrays of floats. A float is either a finite value or
  one of the three special values that the scripts test for with \<open>np.isinf\<close>,
  \<open>np.isnan\<close> and \<open>np.isfinite\<close>. Finite values are modelled as reals and
  arithmetic on them is exact: rounding, overflow and the sign of zero are outside the
  model. On special values the operations follow IEEE 754, as numpy does (numpy warns and
  returns \<open>inf\<close> or \<open>nan\<close> on a division by zero, it does not raise).
\<close>

datatype fl = Fin (the_real: real) | PInf | NInf | NaN

fun fl_isnan :: "fl \<Rightarrow> bool" where
  "fl_isnan NaN = True"
| "fl_isnan _ = False"

fun fl_isinf :: "fl \<Rightarrow> bool" where
  "fl_isinf PInf = True"
| "fl_isinf NInf = True"
| "fl_isinf _ = False"

fun fl_isfinite :: "fl \<Rightarrow> bool" where
  "fl_isfinite (Fin _) = True"
| "fl_isfinite _ = False"

fun fl_neg :: "fl \<Rightarrow> fl" where
  "fl_neg (Fin a) = Fin (- a)"
| "fl_neg PInf = NInf"
| "fl_neg NInf = PInf"
| "fl_neg NaN = NaN"

fun fl_add :: "fl \<Rightarrow> fl \<Rightarrow> fl" where
  "fl_add NaN _ = NaN"
| "fl_add _ NaN = NaN"
| "fl_add (Fin a) (Fin b) = Fin (a + b)"
| "fl_add PInf NInf = NaN"
| "fl_add NInf PInf = NaN"
| "fl_add PInf _ = PInf"
| "fl_add NInf _ = NInf"
| "fl_add (Fin a) PInf = PInf"
| "fl_add (Fin a) NInf = NInf"

definition fl_sub :: "fl \<Rightarrow> fl \<Rightarrow> fl" where
  "fl_sub a b = fl_add a (fl_neg b)"

text \<open>The infinity with the sign of a non-zero real.\<close>

definition inf_of_sign :: "real \<Rightarrow> fl" where
  "inf_of_sign s = (if 0 < s then PInf else NInf)"

fun fl_mul :: "fl \<Rightarrow> fl \<Rightarrow> fl" where
  "fl_mul NaN _ = NaN"
| "fl_mul _ NaN = NaN"
| "fl_mul (Fin a) (Fin b) = Fin (a * b)"
| "fl_mul (Fin a) PInf = (if a = 0 then NaN else inf_of_sign a)"
| "fl_mul (Fin a) NInf = (if a = 0 then NaN else inf_of_sign (- a))"
| "fl_mul PInf (Fin b) = (if b = 0 then NaN else inf_of_sign b)"
| "fl_mul NInf (Fin b) = (if b = 0 then NaN else inf_of_sign (- b))"
| "fl_mul PInf PInf = PInf"
| "fl_mul NInf NInf = PInf"
| "fl_mul PInf NInf = NInf"
| "fl_mul NInf PInf = NInf"

text \<open>
  Division: a finite non-zero value over zero is an infinity, zero over zero is
  \<open>nan\<close>, a finite value over an infinity is zero.
\<close>

fun fl_div :: "fl \<Rightarrow> fl \<Rightarrow> fl" where
  "fl_div NaN _ = NaN"
| "fl_div _ NaN = NaN"
| "fl_div (Fin a) (Fin b) =
     (if b = 0 then (if a = 0 then NaN else inf_of_sign a) else Fin (a / b))"
| "fl_div (Fin a) PInf = Fin 0"
| "fl_div (Fin a) NInf = Fin 0"
| "fl_div PInf (Fin b) = (if 0 \<le> b then PInf else NInf)"
| "fl_div NInf (Fin b) = (if 0 \<le> b then NInf else PInf)"
| "fl_div PInf PInf = NaN"
| "fl_div PInf NInf = NaN"
| "fl_div NInf PInf = NaN"
| "fl_div NInf NInf = NaN"

text \<open>The comparison \<open>a < b\<close> of two floats; every comparison with \<open>nan\<close> is false.\<close>

fun fl_less :: "fl \<Rightarrow> fl \<Rightarrow> bool" where
  "fl_less NaN _ = False"
| "fl_less _ NaN = False"
| "fl_less (Fin a) (Fin b) = (a < b)"
| "fl_less (Fin a) PInf = True"
| "fl_less NInf (Fin b) = True"
| "fl_less NInf PInf = True"
| "fl_less _ _ = False"

text \<open>
  A complex float is a pair of floats, the real part first. \<open>np.isinf\<close> and
  \<open>np.isnan\<close> of a complex number look at both parts.
\<close>

type_synonym cfl = "fl \<times> fl"

definition cfl_isinf :: "cfl \<Rightarrow> bool" where
  "cfl_isinf z = (fl_isinf (fst z) \<or> fl_isinf (snd z))"

definition cfl_isnan :: "cfl \<Rightarrow> bool" where
  "cfl_isnan z = (fl_isnan (fst z) \<or> fl_isnan (snd z))"

text \<open>
  The complex number held by a complex float both of whose parts are finite. The
  scripts read roots this way only after both finiteness checks have passed.
\<close>

definition cfl_val :: "cfl \<Rightarrow> complex" where
  "cfl_val z = Complex (the_real (fst z)) (the_real (snd z))"

text \<open>
  \<open>np.angle(z)\<close> is \<open>arctan2(z.imag, z.real)\<close>: the argument of \<open>z\<close>, with the
  negative real axis mapped to \<open>\<pi>\<close> and the origin to 0.
\<close>

definition arctan2 :: "real \<Rightarrow> real \<Rightarrow> real" where
  "arctan2 y x =
     (if 0 < x then arctan (y / x)
      else if x < 0 then (if 0 \<le> y then arctan (y / x) + pi else arctan (y / x) - pi)
      else if 0 < y then pi / 2
      else if y < 0 then - (pi / 2)
      else 0)"

definition angle :: "complex \<Rightarrow> real" where
  "angle z = arctan2 (Im z) (Re z)"

text \<open>
  Exceptions are values. \<open>IndexError\<close> and \<open>ValueError\<close> are raised by numpy itself;
  the others stand for what the libraries raise: \<open>DecodeFailure\<close> for a file that
  \<open>librosa.load\<close> cannot decode, \<open>ParameterError\<close> and \<open>FloatingPointError\<close> for
  librosa's rejection of an audio buffer, \<open>OSError\<close> for the file system and the
  renderer.
\<close>

datatype error =
  IndexError | ValueError | DecodeFailure | ParameterError | FloatingPointError | OSError

text \<open>What a run leaves behind: the lines it printed and the files it wrote.\<close>

datatype event = Print string | SaveFig string | MakeDirs string

section \<open>The libraries and the file system\<close>

text \<open>
  librosa, numpy's root finder, matplotlib and the file system are not part of the
  repository. Each call into them is a field of the environment, with the arguments the
  scripts pass; a call that can raise returns a sum. A two-dimensional array is the list
  of its rows, except for the output of \<open>librosa.piptrack\<close>, two arrays of one shape
  (frequency bins by frames), which is a record of the shape and the two entry functions.
  \<open>librosa.cqt\<close> is a linear transform of a buffer that librosa has checked to be
  finite, and \<open>librosa.feature.mfcc(S=...)\<close> a cosine transform of the finite array it
  is given, so the entries of both are finite numbers.
\<close>

record piptrack_out =
  n_bins :: nat
  n_frames :: nat
  pitches :: "nat \<Rightarrow> nat \<Rightarrow> fl"
  magnitudes :: "nat \<Rightarrow> nat \<Rightarrow> fl"

record env =
  listdir :: "string \<Rightarrow> error + string list"
  path_exists :: "string \<Rightarrow> bool"
  makedirs :: "string \<Rightarrow> error option"
  load :: "string \<Rightarrow> error + (fl list \<times> nat)"
  lpc :: "fl list \<Rightarrow> nat \<Rightarrow> error + fl list"
  roots :: "fl list \<Rightarrow> cfl list"
  mfcc :: "fl list \<Rightarrow> nat \<Rightarrow> nat \<Rightarrow> error + fl list list"
  cqt :: "fl list \<Rightarrow> nat \<Rightarrow> nat \<Rightarrow> nat \<Rightarrow> error + complex list list"
  mfcc_S :: "real list list \<Rightarrow> nat \<Rightarrow> error + real list list"
  melspectrogram :: "fl list \<Rightarrow> nat \<Rightarrow> error + fl list list"
  piptrack :: "fl list \<Rightarrow> nat \<Rightarrow> error + piptrack_out"
  spectral_centroid :: "fl list \<Rightarrow> nat \<Rightarrow> error + fl list list"
  spectral_contrast :: "fl list \<Rightarrow> nat \<Rightarrow> error + fl list list"
  savefig :: "string \<Rightarrow> error option"

section \<open>pre\_process\_2.py: pre-emphasis and line spectrum frequencies\<close>

text \<open>
  \<^verbatim>\<open>np.append(audio_data[0], audio_data[1:] - coeff * audio_data[:-1])\<close>.
  Indexing an empty array at 0 raises \<open>IndexError\<close>.
\<close>

definition pre_emphasis :: "fl list \<Rightarrow> fl \<Rightarrow> error + fl list" where
  "pre_emphasis audio_data coeff =
     (case audio_data of
        [] \<Rightarrow> Inl IndexError
      | x0 # _ \<Rightarrow>
          Inr (x0 # map2 (\<lambda>a b. fl_sub a (fl_mul coeff b)) (tl audio_data) (butlast audio_data)))"

text \<open>The default value of the parameter \<open>coeff\<close>.\<close>

definition default_coeff :: fl where
  "default_coeff = Fin (1 / 2)"

text \<open>\<^verbatim>\<open>p = np.append(1, -lpc_coeffs)\<close>\<close>

definition lsf_polynomial :: "fl list \<Rightarrow> fl list" where
  "lsf_polynomial lpc_coeffs = Fin 1 # map fl_neg lpc_coeffs"

text \<open>
  \<open>compute_lsf\<close> returns the lines it printed and either the exception of the
  linear-prediction fit or its array: the empty array, or a column (one row per value).
  The parameter \<open>order\<close> is not used by the body: the fit is called with
  \<open>order=12\<close>.
\<close>

definition compute_lsf ::
  "env \<Rightarrow> fl list \<Rightarrow> nat \<Rightarrow> nat \<Rightarrow> event list \<times> (error + real list list)" where
  "compute_lsf E audio_data sample_rate order =
     (case lpc E audio_data 12 of
        Inl e \<Rightarrow> ([], Inl e)
      | Inr lpc_coeffs \<Rightarrow>
          let p = lsf_polynomial lpc_coeffs in
          if list_ex fl_isinf p \<or> list_ex fl_isnan p
          then ([Print ''Warning: LPC polynomial contains inf or NaN values.''], Inr [])
          else
            let rts = roots E p in
            if list_ex cfl_isinf rts \<or> list_ex cfl_isnan rts
            then ([Print ''Warning: LPC roots contain inf or NaN values.''], Inr [])
            else
              let stable_roots = filter (\<lambda>z. cmod z < 1) (map cfl_val rts) in
              if length stable_roots = 0 then ([], Inr [])
              else
                let lsf = map angle stable_roots in
                ([], Inr (map (\<lambda>v. [v]) (sort lsf))))"

text \<open>\<^verbatim>\<open>librosa.feature.mfcc(y=audio_data, sr=sample_rate, n_mfcc=n_mfcc)\<close>\<close>

definition compute_mfcc :: "env \<Rightarrow> fl list \<Rightarrow> nat \<Rightarrow> nat \<Rightarrow> error + fl list list" where
  "compute_mfcc E audio_data sample_rate n_mfcc = mfcc E audio_data sample_rate n_mfcc"

text \<open>\<^verbatim>\<open>librosa.lpc(audio_data, order=12)[:, np.newaxis]\<close>: the coefficients as a column.\<close>

definition compute_lpc :: "env \<Rightarrow> fl list \<Rightarrow> error + fl list list" where
  "compute_lpc E audio_data =
     (case lpc E audio_data 12 of
        Inl e \<Rightarrow> Inl e
      | Inr lpc_coeffs \<Rightarrow> Inr (map (\<lambda>v. [v]) lpc_coeffs))"

section \<open>pre\_process\_2.py: constant-Q cepstral coefficients\<close>

text \<open>
  The last two statements of \<open>compute_cqcc\<close>:
  \<^verbatim>\<open>cqcc -= np.min(cqcc); cqcc /= np.max(cqcc)\<close>.
  \<open>np.min\<close> of an array with no element raises \<open>ValueError\<close>. The maximum is taken
  after the subtraction, and the division is a division of floats: when the maximum
  is zero the result is not a number.
\<close>

definition normalize_cqcc :: "real list list \<Rightarrow> error + fl list list" where
  "normalize_cqcc cqcc =
     (if concat cqcc = [] then Inl ValueError
      else
        let mn = Min (set (concat cqcc));
            shifted = map (map (\<lambda>x. x - mn)) cqcc;
            mx = Max (set (concat shifted))
        in Inr (map (map (\<lambda>x. fl_div (Fin x) (Fin mx))) shifted))"

text \<open>\<^verbatim>\<open>np.log(np.abs(cqt) + 1e-6)\<close>, entry by entry.\<close>

definition log_magnitude :: "complex list list \<Rightarrow> real list list" where
  "log_magnitude c = map (map (\<lambda>z. ln (cmod z + 1 / 1000000))) c"

definition compute_cqcc ::
  "env \<Rightarrow> fl list \<Rightarrow> nat \<Rightarrow> nat \<Rightarrow> nat \<Rightarrow> nat \<Rightarrow> error + fl list list" where
  "compute_cqcc E audio_data sample_rate n_bands n_coeffs hop_length =
     (case cqt E audio_data sample_rate n_bands hop_length of
        Inl e \<Rightarrow> Inl e
      | Inr c \<Rightarrow>
          (case mfcc_S E (log_magnitude c) n_coeffs of
             Inl e \<Rightarrow> Inl e
           | Inr cqcc \<Rightarrow> normalize_cqcc cqcc))"

section \<open>pre\_process\_2.py: one clip, and the batch\<close>

type_synonym features = "real list list \<times> fl list list \<times> fl list list \<times> fl list list"

text \<open>
  \<open>process_audio\<close> returns the lines printed and either an exception, \<open>None\<close>
  (the clip is skipped) or the four arrays. Nothing in it catches an exception.
\<close>

definition process_audio ::
  "env \<Rightarrow> string \<Rightarrow> nat \<Rightarrow> nat \<Rightarrow> event list \<times> (error + features option)" where
  "process_audio E file_path hop_length win_length =
     (case load E file_path of
        Inl e \<Rightarrow> ([], Inl e)
      | Inr (audio_data, sample_rate) \<Rightarrow>
          (case pre_emphasis audio_data default_coeff of
             Inl e \<Rightarrow> ([], Inl e)
           | Inr pre_emphasized_audio \<Rightarrow>
               if list_ex fl_isnan pre_emphasized_audio \<or> list_ex fl_isinf pre_emphasized_audio
               then ([Print (''Warning: Pre-emphasized audio contains NaN or inf values for ''
                               @ file_path @ ''.'')], Inr None)
               else
                 (case compute_lsf E pre_emphasized_audio sample_rate 10 of
                    (out, Inl e) \<Rightarrow> (out, Inl e)
                  | (out, Inr lsf_result) \<Rightarrow>
                      if length (concat lsf_result) = 0
                      then (out @ [Print (''Warning: LSF computation failed for ''
                                            @ file_path @ ''.'')], Inr None)
                      else
                        (case compute_mfcc E pre_emphasized_audio sample_rate 1 of
                           Inl e \<Rightarrow> (out, Inl e)
                         | Inr mfccs \<Rightarrow>
                             (case compute_lpc E pre_emphasized_audio of
                                Inl e \<Rightarrow> (out, Inl e)
                              | Inr lpc_col \<Rightarrow>
                                  (case compute_cqcc E audio_data sample_rate 6 6 2048 of
                                     Inl e \<Rightarrow> (out, Inl e)
                                   | Inr cqcc_features \<Rightarrow>
                                       (out, Inr (Some (lsf_result, mfccs, lpc_col,
                                                        cqcc_features)))))))))"

text \<open>
  Both renderers draw into a figure and end with \<open>plt.savefig(output_path, ...)\<close>.
  The field \<open>savefig\<close> of the environment stands for the whole rendering of one image:
  it gives the exception that drawing or saving raises, if any.
\<close>

definition save_spectrograms :: "env \<Rightarrow> features \<Rightarrow> string \<Rightarrow> event list \<times> error option" where
  "save_spectrograms E b output_path =
     (case savefig E output_path of
        Some e \<Rightarrow> ([], Some e)
      | None \<Rightarrow> ([SaveFig output_path], None))"

subsection \<open>Strings and paths\<close>

definition endswith :: "string \<Rightarrow> string \<Rightarrow> bool" where
  "endswith s suffix =
     (length suffix \<le> length s \<and> drop (length s - length suffix) s = suffix)"

text \<open>\<open>os.path.join\<close> of two components (posixpath).\<close>

definition path_join :: "string \<Rightarrow> string \<Rightarrow> string" where
  "path_join a b =
     (if b \<noteq> [] \<and> hd b = CHR ''/'' then b
      else if a = [] \<or> last a = CHR ''/'' then a @ b
      else a @ ''/'' @ b)"

text \<open>\<open>str.rfind\<close> of a character: the last index where it occurs, or -1.\<close>

definition rfind :: "string \<Rightarrow> char \<Rightarrow> int" where
  "rfind s c =
     (case filter (\<lambda>i. s ! i = c) (rev [0..<length s]) of
        [] \<Rightarrow> - 1
      | i # _ \<Rightarrow> int i)"

text \<open>
  \<open>os.path.splitext(p)[0]\<close>: the path without its extension. The extension starts at
  the last dot of the last component, unless only dots precede it there.
\<close>

definition splitext_root :: "string \<Rightarrow> string" where
  "splitext_root p =
     (let sepIndex = rfind p (CHR ''/'');
          dotIndex = rfind p (CHR ''.'')
      in if sepIndex < dotIndex \<and>
            list_ex (\<lambda>i. p ! i \<noteq> CHR ''.'') [nat (sepIndex + 1)..<nat dotIndex]
         then take (nat dotIndex) p
         else p)"

subsection \<open>The batch of pre\_process\_2.py\<close>

text \<open>
  The body of the \<open>for\<close> loop of \<open>turn\<close>, for the names still to visit. No
  \<open>try\<close> surrounds the body, so an exception of \<open>process_audio\<close> or of the renderer
  ends the loop: the names after it are not visited.
\<close>

fun turn_loop :: "env \<Rightarrow> string \<Rightarrow> string \<Rightarrow> string list \<Rightarrow> event list \<times> error option" where
  "turn_loop E input_directory output_directory [] = ([], None)"
| "turn_loop E input_directory output_directory (filename # rest) =
     (if endswith filename ''.wav'' then
        let file_path = path_join input_directory filename in
        (case process_audio E file_path 256 512 of
           (out, Inl e) \<Rightarrow> (out, Some e)
         | (out, Inr None) \<Rightarrow>
             let (out', r) = turn_loop E input_directory output_directory rest in
             (out @ [Print (''Skipping '' @ filename @ '' due to errors in processing.'')] @ out',
              r)
         | (out, Inr (Some results)) \<Rightarrow>
             let output_filename = splitext_root filename @ ''.jpg'';
                 output_path = path_join output_directory output_filename
             in
             (case save_spectrograms E results output_path of
                (out1, Some e) \<Rightarrow> (out @ out1, Some e)
              | (out1, None) \<Rightarrow>
                  let (out', r) = turn_loop E input_directory output_directory rest in
                  (out @ out1 @
                   [Print (''Saved spectrograms for '' @ filename @ '' to '' @ output_path)] @
                   out', r)))
      else turn_loop E input_directory output_directory rest)"

definition turn :: "env \<Rightarrow> string \<Rightarrow> string \<Rightarrow> event list \<times> error option" where
  "turn E input_directory output_directory =
     (case (if path_exists E output_directory then None else makedirs E output_directory) of
        Some e \<Rightarrow> ([], Some e)
      | None \<Rightarrow>
          let out0 = (if path_exists E output_directory then []
                      else [MakeDirs output_directory]) in
          (case listdir E input_directory of
             Inl e \<Rightarrow> (out0, Some e)
           | Inr names \<Rightarrow>
               let (out, r) = turn_loop E input_directory output_directory names in
               (out0 @ out, r)))"

section \<open>pre\_process\_1.py: the pitch track and its batch\<close>

text \<open>The comparison \<open>a <= b\<close> of two floats.\<close>

definition fl_le :: "fl \<Rightarrow> fl \<Rightarrow> bool" where
  "fl_le a b = (fl_less a b \<or> (\<not> fl_isnan a \<and> a = b))"

text \<open>
  \<open>np.argmax\<close> of a one-dimensional array: the index of the first maximum, and of the
  first \<open>nan\<close> when there is one. The loop keeps the greatest value \<open>mp\<close> seen and its
  index, and replaces them when the next value is not \<open><= mp\<close>.
\<close>

fun argmax_loop :: "fl list \<Rightarrow> nat \<Rightarrow> fl \<Rightarrow> nat \<Rightarrow> nat" where
  "argmax_loop [] i mp max_ind = max_ind"
| "argmax_loop (x # xs) i mp max_ind =
     (if fl_isnan mp then max_ind
      else if \<not> fl_le x mp then argmax_loop xs (Suc i) x i
      else argmax_loop xs (Suc i) mp max_ind)"

definition argmax :: "fl list \<Rightarrow> nat" where
  "argmax xs = argmax_loop (tl xs) 1 (hd xs) 0"

text \<open>
  The pitch part of \<open>extract_audio_features\<close>, from the output of
  \<open>librosa.piptrack\<close>:
  \<^verbatim>\<open>pitch_indices = np.argmax(magnitudes, axis=0)\<close>
  \<^verbatim>\<open>fundamental_frequencies = pitches[pitch_indices, np.arange(pitches.shape[1])]\<close>
  With no frequency bin the reduction over axis 0 raises \<open>ValueError\<close>; otherwise
  every column has a first entry, which is where \<open>argmax\<close> starts.
\<close>

definition fundamental_frequencies :: "piptrack_out \<Rightarrow> error + fl list" where
  "fundamental_frequencies pt =
     (if n_bins pt = 0 then Inl ValueError
      else Inr (map (\<lambda>t. pitches pt (argmax (map (\<lambda>i. magnitudes pt i t) [0..<n_bins pt])) t)
                  [0..<n_frames pt]))"

text \<open>
  \<^verbatim>\<open>fundamental_period = 1 / fundamental_frequencies\<close>
  \<^verbatim>\<open>fundamental_period = fundamental_period[np.isfinite(fundamental_period)]\<close>
  \<^verbatim>\<open>fundamental_period = fundamental_period[fundamental_period > 0]\<close>
\<close>

definition fundamental_period :: "fl list \<Rightarrow> fl list" where
  "fundamental_period ffs =
     filter (\<lambda>v. fl_less (Fin 0) v) (filter fl_isfinite (map (\<lambda>f. fl_div (Fin 1) f) ffs))"

definition extract_audio_features ::
  "env \<Rightarrow> fl list \<Rightarrow> nat \<Rightarrow> error + (fl list list \<times> fl list \<times> fl list list \<times> fl list list)" where
  "extract_audio_features E audio_data sample_rate =
     (case melspectrogram E audio_data sample_rate of
        Inl e \<Rightarrow> Inl e
      | Inr fbank_features \<Rightarrow>
          (case piptrack E audio_data sample_rate of
             Inl e \<Rightarrow> Inl e
           | Inr pt \<Rightarrow>
               (case fundamental_frequencies pt of
                  Inl e \<Rightarrow> Inl e
                | Inr ffs \<Rightarrow>
                    (case spectral_centroid E audio_data sample_rate of
                       Inl e \<Rightarrow> Inl e
                     | Inr centroid \<Rightarrow>
                         (case spectral_contrast E audio_data sample_rate of
                            Inl e \<Rightarrow> Inl e
                          | Inr contrast \<Rightarrow>
                              Inr (fbank_features, fundamental_period ffs, centroid,
                                   contrast))))))"

definition visualize_and_save_features ::
  "env \<Rightarrow> fl list list \<Rightarrow> fl list \<Rightarrow> fl list list \<Rightarrow> fl list list \<Rightarrow> string \<Rightarrow>
   event list \<times> error option" where
  "visualize_and_save_features E fbank_features period centroid contrast output_path =
     (case savefig E output_path of
        Some e \<Rightarrow> ([], Some e)
      | None \<Rightarrow> ([SaveFig output_path], None))"

text \<open>The text of an exception in a printed line: here its name.\<close>

fun str_of_error :: "error \<Rightarrow> string" where
  "str_of_error IndexError = ''IndexError''"
| "str_of_error ValueError = ''ValueError''"
| "str_of_error DecodeFailure = ''DecodeFailure''"
| "str_of_error ParameterError = ''ParameterError''"
| "str_of_error FloatingPointError = ''FloatingPointError''"
| "str_of_error OSError = ''OSError''"

text \<open>The statements inside the \<open>try\<close> of \<open>process_audio_directory\<close>, for one file.\<close>

definition try_body :: "env \<Rightarrow> string \<Rightarrow> string \<Rightarrow> string \<Rightarrow> event list \<times> error option" where
  "try_body E input_directory output_directory filename =
     (let file_path = path_join input_directory filename in
      case load E file_path of
        Inl e \<Rightarrow> ([], Some e)
      | Inr (audio_data, sample_rate) \<Rightarrow>
          (case extract_audio_features E audio_data sample_rate of
             Inl e \<Rightarrow> ([], Some e)
           | Inr (fbank_features, period, centroid, contrast) \<Rightarrow>
               let output_filename = splitext_root filename @ ''.jpg'';
                   output_path = path_join output_directory output_filename
               in
               (case visualize_and_save_features E fbank_features period centroid contrast
                       output_path of
                  (out, Some e) \<Rightarrow> (out, Some e)
                | (out, None) \<Rightarrow>
                    (out @ [Print (''Successfully processed and saved feature image: ''
                                     @ output_filename)], None))))"

text \<open>
  One iteration of the loop: the \<open>except Exception\<close> clause prints the exception and
  the loop goes on, so an iteration only yields events.
\<close>

definition directory_step :: "env \<Rightarrow> string \<Rightarrow> string \<Rightarrow> string \<Rightarrow> event list" where
  "directory_step E input_directory output_directory filename =
     (if endswith filename ''.wav'' then
        (case try_body E input_directory output_directory filename of
           (out, Some e) \<Rightarrow>
             out @ [Print (''Error processing '' @ filename @ '': '' @ str_of_error e)]
         | (out, None) \<Rightarrow> out)
      else [])"

fun directory_loop :: "env \<Rightarrow> string \<Rightarrow> string \<Rightarrow> string list \<Rightarrow> event list" where
  "directory_loop E input_directory output_directory [] = []"
| "directory_loop E input_directory output_directory (filename # rest) =
     directory_step E input_directory output_directory filename @
     directory_loop E input_directory output_directory rest"

text \<open>\<open>os.makedirs(output_directory, exist_ok=True)\<close>, then the loop over the listing.\<close>

definition process_audio_directory :: "env \<Rightarrow> string \<Rightarrow> string \<Rightarrow> event list \<times> error option" where
  "process_audio_directory E input_directory output_directory =
     (case (if path_exists E output_directory then None else makedirs E output_directory) of
        Some e \<Rightarrow> ([], Some e)
      | None \<Rightarrow>
          let out0 = (if path_exists E output_directory then []
                      else [MakeDirs output_directory]) in
          (case listdir E input_directory of
             Inl e \<Rightarrow> (out0, Some e)
           | Inr names \<Rightarrow> (out0 @ directory_loop E input_directory output_directory names, None)))"

section \<open>Conditions named by the specification\<close>

text \<open>
  The three failure conditions of the line-spectrum extractor, on the polynomial and on
  the roots that the root finder returns for it.
\<close>

definition degenerate_model :: "fl list \<Rightarrow> bool" where
  "degenerate_model p = list_ex (\<lambda>c. \<not> fl_isfinite c) p"

definition degenerate_roots :: "cfl list \<Rightarrow> bool" where
  "degenerate_roots rts = list_ex (\<lambda>z. \<not> fl_isfinite (fst z) \<or> \<not> fl_isfinite (snd z)) rts"

definition no_stable_roots :: "cfl list \<Rightarrow> bool" where
  "no_stable_roots rts = list_all (\<lambda>z. \<not> cmod (cfl_val z) < 1) rts"

text \<open>The angles of the roots inside the unit circle, in ascending order.\<close>

definition stable_angles :: "cfl list \<Rightarrow> real list" where
  "stable_angles rts = sort (map angle (filter (\<lambda>z. cmod z < 1) (map cfl_val rts)))"

text \<open>The entries of a two-dimensional array are not all equal.\<close>

definition not_constant :: "real list list \<Rightarrow> bool" where
  "not_constant m = list_ex (\<lambda>x. list_ex (\<lambda>y. x \<noteq> y) (concat m)) (concat m)"

text \<open>
  The polynomial as the specification words it, \<open>1 - \<Sum> a\<^sub>k z\<^sup>-\<^sup>k\<close>, for a fit that
  returns the leading 1 followed by \<open>a\<^sub>1, ..., a\<^sub>n\<close>: degree \<open>n\<close>, leading
  coefficient 1, \<open>k\<close>-th coefficient \<open>- a\<^sub>k\<close>.
\<close>

definition spec_polynomial :: "fl list \<Rightarrow> fl list" where
  "spec_polynomial lpc_coeffs = Fin 1 # map fl_neg (tl lpc_coeffs)"

text \<open>Every value of a result lies strictly between \<open>- \<pi>\<close> and \<open>\<pi>\<close>.\<close>

definition in_open_interval :: "real list list \<Rightarrow> bool" where
  "in_open_interval r = list_all (\<lambda>v. - pi < v \<and> v < pi) (concat r)"

text \<open>
  The period of one analysis frame, \<open>1 / f0\<close>, where \<open>f0\<close> is the pitch of the bin
  with the greatest magnitude in that frame; and what makes a period valid.
\<close>

definition frame_period :: "piptrack_out \<Rightarrow> nat \<Rightarrow> fl" where
  "frame_period pt t =
     fl_div (Fin 1) (pitches pt (argmax (map (\<lambda>i. magnitudes pt i t) [0..<n_bins pt])) t)"

definition valid_period :: "fl \<Rightarrow> bool" where
  "valid_period v = (fl_isfinite v \<and> fl_less (Fin 0) v)"

section \<open>A concrete environment\<close>

text \<open>
  A two-sample clip and library results for it, used to run the scripts on an input.
  The linear-prediction fit returns \<open>order + 1\<close> coefficients, the leading 1 first, as
  \<open>librosa.lpc\<close> does; here they are \<open>1, 3/4, 0, ..., 0\<close>. The polynomial that
  \<open>compute_lsf\<close> builds from them is \<open>z\<^sup>n\<^sup>-\<^sup>2 (z\<^sup>2 - z - 3/4)\<close>, with the roots
  \<open>3/2\<close>, \<open>-1/2\<close> and \<open>n - 2\<close> times 0, which is what the root finder returns.
\<close>

definition ex_audio :: "fl list" where
  "ex_audio = [Fin 1, Fin 1]"

definition ex_pre :: "fl list" where
  "ex_pre = [Fin 1, Fin (1 / 2)]"

definition ex_coeffs :: "nat \<Rightarrow> fl list" where
  "ex_coeffs order = Fin 1 # Fin (3 / 4) # replicate (order - 1) (Fin 0)"

definition ex_roots :: "fl list \<Rightarrow> cfl list" where
  "ex_roots p =
     (if p = [Fin 1, Fin (- 1), Fin (- (3 / 4))] @ replicate (length p - 3) (Fin 0)
      then (Fin (3 / 2), Fin 0) # (Fin (- (1 / 2)), Fin 0) #
           replicate (length p - 3) (Fin 0, Fin 0)
      else [])"

definition ex_pip :: piptrack_out where
  "ex_pip = \<lparr> n_bins = 2, n_frames = 3,
              pitches = (\<lambda>i t. if i = 1 then Fin (200 * real t) else Fin 0),
              magnitudes = (\<lambda>i t. if i = 1 then Fin 1 else Fin 0) \<rparr>"

definition ex_cqt :: "fl list \<Rightarrow> complex list list" where
  "ex_cqt y =
     (if y = ex_audio
      then [[complex_of_real (999999 / 1000000), complex_of_real (1999999 / 1000000)]]
      else [[complex_of_real (1999999 / 1000000), complex_of_real (999999 / 1000000)]])"

definition ex_env :: env where
  "ex_env = \<lparr>
     listdir = (\<lambda>d. Inr [''bad.wav'', ''notes.txt'', ''good.wav'']),
     path_exists = (\<lambda>p. True),
     makedirs = (\<lambda>p. None),
     load = (\<lambda>p. if p = ''wav/bad.wav'' then Inl DecodeFailure else Inr (ex_audio, 16000)),
     lpc = (\<lambda>y order. Inr (ex_coeffs order)),
     roots = ex_roots,
     mfcc = (\<lambda>y sr n. Inr [[Fin 0]]),
     cqt = (\<lambda>y sr n hop. Inr (ex_cqt y)),
     mfcc_S = (\<lambda>S n. Inr S),
     melspectrogram = (\<lambda>y sr. Inr [[Fin 0]]),
     piptrack = (\<lambda>y sr. Inr ex_pip),
     spectral_centroid = (\<lambda>y sr. Inr [[Fin 0]]),
     spectral_contrast = (\<lambda>y sr. Inr [[Fin 0]]),
     savefig = (\<lambda>p. None) \<rparr>"

text \<open>The same libraries, except that a fit of any order but 12 is refused.\<close>

definition ex_env_only12 :: env where
  "ex_env_only12 =
     ex_env \<lparr> lpc := (\<lambda>y order. if order = 12 then Inr (ex_coeffs 12) else Inl ParameterError) \<rparr>"

section \<open>Lemmas on floats, angles and lists\<close>

lemma fl_isfinite_iff: "fl_isfinite c \<longleftrightarrow> \<not> fl_isinf c \<and> \<not> fl_isnan c"
  by (cases c) auto

lemma arctan2_bounds: "- pi < arctan2 y x \<and> arctan2 y x \<le> pi"
proof -
  have lo: "- (pi / 2) < arctan (y / x)" and hi: "arctan (y / x) < pi / 2"
    by (rule arctan_lbound, rule arctan_ubound)
  have neg: "arctan (y / x) \<le> 0" if "x < 0" "0 \<le> y"
    using that by (simp add: divide_nonneg_neg arctan_le_zero_iff)
  have pos: "0 < arctan (y / x)" if "x < 0" "y < 0"
    using that by (simp add: divide_neg_neg)
  show ?thesis
    using lo hi neg pos pi_gt_zero unfolding arctan2_def by (auto simp: not_less)
qed

lemma angle_bounds: "- pi < angle z \<and> angle z \<le> pi"
  unfolding angle_def by (rule arctan2_bounds)

lemma sort_eq_Nil: "sort xs = [] \<longleftrightarrow> xs = []"
  by (metis length_0_conv length_sort)

lemma concat_singletons: "concat (map (\<lambda>v. [v]) xs) = xs"
  by (induction xs) auto

lemma concat_map_map: "concat (map (map f) m) = map f (concat m)"
  by (induction m) auto

section \<open>The line-spectrum extractor\<close>

lemma degenerate_model_iff:
  "degenerate_model p \<longleftrightarrow> list_ex fl_isinf p \<or> list_ex fl_isnan p"
  by (auto simp: degenerate_model_def list_ex_iff fl_isfinite_iff)

lemma degenerate_roots_iff:
  "degenerate_roots rts \<longleftrightarrow> list_ex cfl_isinf rts \<or> list_ex cfl_isnan rts"
  by (auto simp: degenerate_roots_def list_ex_iff fl_isfinite_iff cfl_isinf_def cfl_isnan_def)

lemma no_stable_roots_iff:
  "no_stable_roots rts \<longleftrightarrow> filter (\<lambda>z. cmod z < 1) (map cfl_val rts) = []"
  by (auto simp: no_stable_roots_def list_all_iff filter_empty_conv)

lemma stable_angles_empty: "stable_angles rts = [] \<longleftrightarrow> no_stable_roots rts"
  by (simp add: stable_angles_def no_stable_roots_iff sort_eq_Nil)

lemma stable_angles_sorted: "sorted (stable_angles rts)"
  by (simp add: stable_angles_def)

lemma stable_angles_range: "v \<in> set (stable_angles rts) \<Longrightarrow> - pi < v \<and> v \<le> pi"
  using angle_bounds by (auto simp: stable_angles_def)

lemma stable_angles_length: "length (stable_angles rts) \<le> length rts"
  by (simp add: stable_angles_def)

text \<open>Once the fit has returned, the four outcomes of \<open>compute_lsf\<close>, in the order of its checks.\<close>

lemma compute_lsf_cases:
  assumes "lpc E audio_data 12 = Inr lpc_coeffs"
  shows "compute_lsf E audio_data sample_rate order =
     (let p = lsf_polynomial lpc_coeffs; rts = roots E p in
      if degenerate_model p
      then ([Print ''Warning: LPC polynomial contains inf or NaN values.''], Inr [])
      else if degenerate_roots rts
      then ([Print ''Warning: LPC roots contain inf or NaN values.''], Inr [])
      else if no_stable_roots rts then ([], Inr [])
      else ([], Inr (map (\<lambda>v. [v]) (stable_angles rts))))"
  using assms
  by (simp add: compute_lsf_def Let_def degenerate_model_iff degenerate_roots_iff
      no_stable_roots_iff stable_angles_def)

lemma compute_lsf_returns:
  assumes "lpc E audio_data 12 = Inr c"
  shows "\<exists>out r. compute_lsf E audio_data sample_rate order = (out, Inr r) \<and>
           (r = [] \<or> r = map (\<lambda>v. [v]) (stable_angles (roots E (lsf_polynomial c))))"
  by (simp add: compute_lsf_cases[OF assms] Let_def)

text \<open>The root finder is asked for the roots of one polynomial only.\<close>

lemma compute_lsf_roots_at_p:
  assumes "lpc E audio_data 12 = Inr c"
    and "R (lsf_polynomial c) = roots E (lsf_polynomial c)"
  shows "compute_lsf (E\<lparr>roots := R\<rparr>) audio_data sample_rate order =
         compute_lsf E audio_data sample_rate order"
  using assms by (simp add: compute_lsf_def Let_def)

text \<open>The result does not depend on the argument \<open>order\<close>.\<close>

lemma compute_lsf_order_unused:
  "compute_lsf E audio_data sample_rate order = compute_lsf E audio_data sample_rate order'"
  by (simp add: compute_lsf_def)

subsection \<open>The extractor on the concrete clip\<close>

lemma ex_poly: "lsf_polynomial (ex_coeffs 12) =
   [Fin 1, Fin (- 1), Fin (- (3 / 4))] @ replicate 11 (Fin 0)"
  by (simp add: lsf_polynomial_def ex_coeffs_def eval_nat_numeral)

lemma ex_roots_12: "ex_roots (lsf_polynomial (ex_coeffs 12)) =
   (Fin (3 / 2), Fin 0) # (Fin (- (1 / 2)), Fin 0) # replicate 11 (Fin 0, Fin 0)"
  by (simp add: ex_poly ex_roots_def)

lemma ex_stable_angles:
  "stable_angles (ex_roots (lsf_polynomial (ex_coeffs 12))) = replicate 11 0 @ [pi]"
  unfolding ex_roots_12
  using pi_gt_zero
  by (simp add: stable_angles_def cfl_val_def complex_norm angle_def arctan2_def eval_nat_numeral
      not_le)

lemma ex_not_degenerate:
  "\<not> degenerate_model (lsf_polynomial (ex_coeffs 12))"
  "\<not> degenerate_roots (ex_roots (lsf_polynomial (ex_coeffs 12)))"
  "\<not> no_stable_roots (ex_roots (lsf_polynomial (ex_coeffs 12)))"
proof -
  show "\<not> degenerate_model (lsf_polynomial (ex_coeffs 12))"
    by (simp add: ex_poly degenerate_model_def list_ex_iff)
  show "\<not> degenerate_roots (ex_roots (lsf_polynomial (ex_coeffs 12)))"
    by (simp add: ex_roots_12 degenerate_roots_def list_ex_iff)
  show "\<not> no_stable_roots (ex_roots (lsf_polynomial (ex_coeffs 12)))"
    by (simp add: ex_stable_angles flip: stable_angles_empty)
qed

lemma ex_compute_lsf_gen:
  assumes "lpc E ex_pre 12 = Inr (ex_coeffs 12)" and "roots E = ex_roots"
  shows "compute_lsf E ex_pre sample_rate order = ([], Inr (replicate 11 [0] @ [[pi]]))"
  unfolding compute_lsf_cases[OF assms(1)] Let_def assms(2)
  using ex_not_degenerate by (simp add: ex_stable_angles)

lemma ex_lpc: "lpc ex_env y order = Inr (ex_coeffs order)"
  by (simp add: ex_env_def)

lemma ex_roots_sel: "roots ex_env = ex_roots"
  by (simp add: ex_env_def)

lemma ex_compute_lsf:
  "compute_lsf ex_env ex_pre sample_rate order = ([], Inr (replicate 11 [0] @ [[pi]]))"
  by (rule ex_compute_lsf_gen) (simp_all add: ex_lpc ex_roots_sel)

subsection \<open>Claims on the extractor\<close>

text \<open>
  Claim C1. Once the linear-prediction fit has returned its coefficients, \<open>compute_lsf\<close>
  returns an array, and the array is empty exactly when the polynomial has a non-finite
  coefficient, or a root is non-finite, or no root has a modulus below 1. Otherwise the
  array is not empty and holds the sorted angles of the roots inside the unit circle,
  one per row. The checks come in this order: the first warning is printed whenever the
  polynomial is degenerate, whatever the root finder would return; the second whenever
  the polynomial is fine and a root is not; nothing is printed otherwise.
\<close>

theorem compute_lsf_failure_taxonomy:
  assumes "lpc E audio_data 12 = Inr lpc_coeffs"
  shows "let p = lsf_polynomial lpc_coeffs; rts = roots E p in
     \<exists>out r. compute_lsf E audio_data sample_rate order = (out, Inr r) \<and>
       (r = [] \<longleftrightarrow> degenerate_model p \<or> degenerate_roots rts \<or> no_stable_roots rts) \<and>
       (r \<noteq> [] \<longrightarrow> r = map (\<lambda>v. [v]) (stable_angles rts)) \<and>
       (degenerate_model p \<longrightarrow>
          out = [Print ''Warning: LPC polynomial contains inf or NaN values.'']) \<and>
       (\<not> degenerate_model p \<and> degenerate_roots rts \<longrightarrow>
          out = [Print ''Warning: LPC roots contain inf or NaN values.'']) \<and>
       (\<not> degenerate_model p \<and> \<not> degenerate_roots rts \<longrightarrow> out = [])"
  unfolding compute_lsf_cases[OF assms] Let_def
  by (simp add: stable_angles_empty)

theorem compute_lsf_failure_taxonomy_witness:
  "lpc ex_env ex_pre 12 = Inr (ex_coeffs 12) \<and>
   (\<exists>out r. compute_lsf ex_env ex_pre 16000 10 = (out, Inr r) \<and> r \<noteq> [] \<and> out = [] \<and>
      r = map (\<lambda>v. [v]) (stable_angles (roots ex_env (lsf_polynomial (ex_coeffs 12)))))"
proof -
  have h: "lpc ex_env ex_pre 12 = Inr (ex_coeffs 12)"
    by (rule ex_lpc)
  show ?thesis
    using h ex_not_degenerate
      compute_lsf_failure_taxonomy[OF h, where sample_rate = 16000 and order = 10]
    by (auto simp: Let_def ex_roots_sel)
qed

text \<open>
  Claim C2, as the specification states it, fails: a negative real root inside the unit
  circle has the angle \<open>\<pi>\<close>, which is not below \<open>\<pi>\<close>. On the concrete clip the
  polynomial has the root \<open>-1/2\<close> and the result ends with \<open>\<pi>\<close>.
\<close>

theorem compute_lsf_open_interval_counterexample:
  "snd (compute_lsf ex_env ex_pre 16000 10) = Inr (replicate 11 [0] @ [[pi]]) \<and>
   replicate 11 [0] @ [[pi]] \<noteq> [] \<and>
   \<not> in_open_interval (replicate 11 [0] @ [[pi]])"
  by (simp add: ex_compute_lsf in_open_interval_def)

text \<open>
  Claim C2, amended. Whenever the fit returns its coefficients, \<open>compute_lsf\<close> returns an
  array whose values are in ascending order, and each value \<open>v\<close> satisfies
  \<open>- \<pi> < v \<le> \<pi>\<close>.
\<close>

theorem compute_lsf_sorted_range:
  assumes "lpc E audio_data 12 = Inr c"
  shows "\<exists>out r. compute_lsf E audio_data sample_rate order = (out, Inr r) \<and>
           sorted (concat r) \<and> (\<forall>v \<in> set (concat r). - pi < v \<and> v \<le> pi)"
proof -
  from compute_lsf_returns[OF assms] obtain out r where
    r: "compute_lsf E audio_data sample_rate order = (out, Inr r)"
       "r = [] \<or> r = map (\<lambda>v. [v]) (stable_angles (roots E (lsf_polynomial c)))"
    by blast
  have "sorted (concat r) \<and> (\<forall>v \<in> set (concat r). - pi < v \<and> v \<le> pi)"
    using r(2) stable_angles_sorted stable_angles_range
    by (auto simp: concat_singletons)
  with r(1) show ?thesis by blast
qed

theorem compute_lsf_sorted_range_witness:
  "lpc ex_env ex_pre 12 = Inr (ex_coeffs 12) \<and>
   compute_lsf ex_env ex_pre 16000 10 = ([], Inr (replicate 11 [0] @ [[pi]])) \<and>
   sorted (concat (replicate 11 [0] @ [[pi :: real]])) \<and>
   list_all (\<lambda>v. - pi < v \<and> v \<le> pi) (concat (replicate 11 [0] @ [[pi]]))"
proof -
  have h: "lpc ex_env ex_pre 12 = Inr (ex_coeffs 12)"
    by (rule ex_lpc)
  have e: "compute_lsf ex_env ex_pre 16000 10 = ([], Inr (replicate 11 [0] @ [[pi]]))"
    by (rule ex_compute_lsf)
  from compute_lsf_sorted_range[OF h, of 16000 10] obtain out r where
    r: "compute_lsf ex_env ex_pre 16000 10 = (out, Inr r)" "sorted (concat r)"
       "\<forall>v \<in> set (concat r). - pi < v \<and> v \<le> pi"
    by blast
  from r(1) e have "r = replicate 11 [0] @ [[pi]]" by simp
  with r(2,3) h e show ?thesis
    unfolding list_all_iff by blast
qed

text \<open>
  What the code builds, for every environment: when the order-12 fit returns 13
  coefficients, the leading 1 and \<open>a\<^sub>1, ..., a\<^sub>1\<^sub>2\<close>, the polynomial handed to the root
  finder has 14 coefficients: 1, then -1, then \<open>- a\<^sub>k\<close> at position \<open>k + 1\<close>. The
  result depends on the root finder through the roots of this polynomial only.
\<close>

lemma lsf_polynomial_of_fit:
  assumes "lpc E audio_data 12 = Inr c" and "length c = 13" and "c ! 0 = Fin 1"
  shows "let p = lsf_polynomial c in
     length p = 14 \<and> p ! 0 = Fin 1 \<and> p ! 1 = Fin (- 1) \<and>
     (\<forall>k. 1 \<le> k \<and> k \<le> 12 \<longrightarrow> p ! (k + 1) = fl_neg (c ! k)) \<and>
     (\<forall>R. R p = roots E p \<longrightarrow>
          compute_lsf (E\<lparr>roots := R\<rparr>) audio_data sample_rate order =
          compute_lsf E audio_data sample_rate order)"
proof -
  have "lsf_polynomial c ! 1 = fl_neg (c ! 0)"
    using assms(2) by (simp add: lsf_polynomial_def)
  then have one: "lsf_polynomial c ! 1 = Fin (- 1)"
    using assms(3) by simp
  have later: "lsf_polynomial c ! (k + 1) = fl_neg (c ! k)" if "k \<le> 12" for k
    using that assms(2) by (simp add: lsf_polynomial_def)
  show ?thesis
    using assms(2) one later compute_lsf_roots_at_p[OF assms(1)]
    by (simp add: Let_def lsf_polynomial_def)
qed

text \<open>
  Claim C3 is what the code attempts and misses. \<^verbatim>\<open>np.append(1, -lpc_coeffs)\<close> is the
  polynomial \<open>1 - \<Sum> a\<^sub>k z\<^sup>-\<^sup>k\<close> of the claim for an array that holds \<open>a\<^sub>1, ..., a\<^sub>1\<^sub>2\<close>
  only, but \<open>librosa.lpc\<close> returns the leading 1 with them, and the code negates all
  thirteen values and puts another 1 in front. On the concrete clip, where the fit
  returns \<open>1, 3/4, 0, ..., 0\<close>, the polynomial of the code has 14 coefficients (degree
  13) and its second coefficient is -1, while the polynomial of the claim has 13
  coefficients (degree 12) and the second coefficient \<open>- a\<^sub>1 = - 3/4\<close>; the root
  finder is given the former, and thirteen roots come back.
\<close>

theorem lsf_polynomial_doubles_leading_one:
  "lpc ex_env ex_pre 12 = Inr (ex_coeffs 12) \<and>
   length (ex_coeffs 12) = 13 \<and> ex_coeffs 12 ! 0 = Fin 1 \<and>
   length (lsf_polynomial (ex_coeffs 12)) = 14 \<and>
   length (spec_polynomial (ex_coeffs 12)) = 13 \<and>
   lsf_polynomial (ex_coeffs 12) ! 1 = Fin (- 1) \<and>
   spec_polynomial (ex_coeffs 12) ! 1 = Fin (- (3 / 4)) \<and>
   lsf_polynomial (ex_coeffs 12) \<noteq> spec_polynomial (ex_coeffs 12) \<and>
   length (roots ex_env (lsf_polynomial (ex_coeffs 12))) = 13 \<and>
   compute_lsf ex_env ex_pre 16000 10 = ([], Inr (replicate 11 [0] @ [[pi]]))"
proof -
  have "length (roots ex_env (lsf_polynomial (ex_coeffs 12))) = 13"
    unfolding ex_roots_sel ex_roots_12 by simp
  then show ?thesis
    by (simp add: ex_lpc ex_compute_lsf lsf_polynomial_def spec_polynomial_def ex_coeffs_def)
qed

text \<open>
  Claim C4 holds of the signature and not of the body. Called with the default order 10
  on the concrete clip, \<open>compute_lsf\<close> returns twelve values, the result of the order-12
  fit; an order-10 fit returns 11 coefficients, and the polynomial built from them has 11
  roots. The call returns the same in the environment where every fit of an order other
  than 12 is refused: the fit of order 10 is never asked for.
\<close>

theorem compute_lsf_default_order_fits_12:
  "lpc ex_env ex_pre 10 = Inr (ex_coeffs 10) \<and> length (ex_coeffs 10) = 11 \<and>
   compute_lsf ex_env ex_pre 16000 10 = ([], Inr (replicate 11 [0] @ [[pi]])) \<and>
   length (replicate 11 [0::real] @ [[pi]]) = 12 \<and>
   lpc ex_env_only12 ex_pre 10 = Inl ParameterError \<and>
   compute_lsf ex_env_only12 ex_pre 16000 10 = ([], Inr (replicate 11 [0] @ [[pi]]))"
proof -
  have "compute_lsf ex_env_only12 ex_pre 16000 10 = ([], Inr (replicate 11 [0] @ [[pi]]))"
    by (rule ex_compute_lsf_gen) (simp_all add: ex_env_only12_def ex_roots_sel)
  then show ?thesis
    by (simp add: ex_lpc ex_compute_lsf ex_coeffs_def ex_env_only12_def)
qed

text \<open>
  Claim C10. When the order-12 fit returns its 13 coefficients and the root finder
  returns no more roots than the degree of the polynomial it is given, the polynomial
  handed to the root finder has 14 coefficients (degree 13), and \<open>compute_lsf\<close> returns
  an array of at most 13 values.
\<close>

theorem compute_lsf_at_most_13:
  assumes "lpc E audio_data 12 = Inr c" and "length c = 13"
    and "length (roots E (lsf_polynomial c)) \<le> length (lsf_polynomial c) - 1"
  shows "length (lsf_polynomial c) = 14 \<and>
         (\<exists>out r. compute_lsf E audio_data sample_rate order = (out, Inr r) \<and>
            length r \<le> 13 \<and> length (concat r) \<le> 13)"
proof -
  have l: "length (lsf_polynomial c) = 14"
    using assms(2) by (simp add: lsf_polynomial_def)
  have s: "length (stable_angles (roots E (lsf_polynomial c))) \<le> 13"
    using stable_angles_length[of "roots E (lsf_polynomial c)"] assms(3) l by simp
  from compute_lsf_returns[OF assms(1)] obtain out r where
    r: "compute_lsf E audio_data sample_rate order = (out, Inr r)"
       "r = [] \<or> r = map (\<lambda>v. [v]) (stable_angles (roots E (lsf_polynomial c)))"
    by blast
  have "length r \<le> 13 \<and> length (concat r) \<le> 13"
    using r(2) s by (auto simp: concat_singletons)
  with l r(1) show ?thesis by blast
qed

theorem compute_lsf_at_most_13_witness:
  "lpc ex_env ex_pre 12 = Inr (ex_coeffs 12) \<and> length (ex_coeffs 12) = 13 \<and>
   length (roots ex_env (lsf_polynomial (ex_coeffs 12)))
     \<le> length (lsf_polynomial (ex_coeffs 12)) - 1 \<and>
   length (lsf_polynomial (ex_coeffs 12)) = 14 \<and>
   compute_lsf ex_env ex_pre 16000 10 = ([], Inr (replicate 11 [0] @ [[pi]])) \<and>
   length (replicate 11 [0::real] @ [[pi]]) \<le> 13"
proof -
  have h1: "lpc ex_env ex_pre 12 = Inr (ex_coeffs 12)"
    by (rule ex_lpc)
  have h2: "length (ex_coeffs 12) = 13"
    by (simp add: ex_coeffs_def)
  have h3: "length (roots ex_env (lsf_polynomial (ex_coeffs 12)))
              \<le> length (lsf_polynomial (ex_coeffs 12)) - 1"
    unfolding ex_roots_sel ex_roots_12 by (simp add: ex_poly)
  have e: "compute_lsf ex_env ex_pre 16000 10 = ([], Inr (replicate 11 [0] @ [[pi]]))"
    by (rule ex_compute_lsf)
  from compute_lsf_at_most_13[OF h1 h2 h3, of 16000 10] obtain out r where
    r: "length (lsf_polynomial (ex_coeffs 12)) = 14"
       "compute_lsf ex_env ex_pre 16000 10 = (out, Inr r)" "length r \<le> 13"
    by blast
  from r(2) e have "r = replicate 11 [0] @ [[pi]]" by simp
  with r(1,3) h1 h2 h3 e show ?thesis by blast
qed

section \<open>Pre-emphasis\<close>

text \<open>
  Claim C6, as the specification states it, fails on the waveform with no sample:
  \<open>audio_data[0]\<close> raises \<open>IndexError\<close> and there is no output.
\<close>

theorem pre_emphasis_empty_counterexample:
  "pre_emphasis [] default_coeff = Inl IndexError"
  by (simp add: pre_emphasis_def)

text \<open>
  Claim C6, amended. For every waveform with at least one sample and every coefficient,
  the output has the length of the input, its first element is the first element of the
  input, and every later element is \<open>x[i] - coeff * x[i-1]\<close>; the default coefficient
  is 0.5.
\<close>

theorem pre_emphasis_nonempty:
  assumes "audio_data \<noteq> []"
  shows "\<exists>y. pre_emphasis audio_data coeff = Inr y \<and> length y = length audio_data \<and>
             y ! 0 = audio_data ! 0 \<and>
             (\<forall>i. 1 \<le> i \<and> i < length audio_data \<longrightarrow>
                  y ! i = fl_sub (audio_data ! i) (fl_mul coeff (audio_data ! (i - 1)))) \<and>
             default_coeff = Fin (1 / 2)"
proof -
  from assms obtain x0 xs where ax: "audio_data = x0 # xs" by (cases audio_data) auto
  define ys where "ys = map2 (\<lambda>a b. fl_sub a (fl_mul coeff b)) xs (butlast (x0 # xs))"
  have lb: "length (butlast (x0 # xs)) = length xs"
    by (simp del: butlast.simps)
  have py: "pre_emphasis audio_data coeff = Inr (x0 # ys)"
    by (simp add: pre_emphasis_def ax ys_def del: butlast.simps)
  have len: "length (x0 # ys) = length audio_data"
    by (simp add: ax ys_def lb del: butlast.simps)
  have first: "(x0 # ys) ! 0 = audio_data ! 0"
    by (simp add: ax)
  have later: "(x0 # ys) ! i = fl_sub (audio_data ! i) (fl_mul coeff (audio_data ! (i - 1)))"
    if "1 \<le> i" "i < length audio_data" for i
  proof -
    from that obtain j where j: "i = Suc j" by (cases i) auto
    with that have jl: "j < length xs" by (simp add: ax)
    have "butlast (x0 # xs) ! j = (x0 # xs) ! j"
      using jl lb by (intro nth_butlast) (simp del: butlast.simps)
    then have "ys ! j = fl_sub (xs ! j) (fl_mul coeff ((x0 # xs) ! j))"
      using jl lb by (simp add: ys_def del: butlast.simps)
    then show ?thesis
      by (simp add: j ax)
  qed
  show ?thesis
    using py len first later default_coeff_def by blast
qed

theorem pre_emphasis_nonempty_witness:
  "ex_audio \<noteq> [] \<and> pre_emphasis ex_audio default_coeff = Inr ex_pre \<and>
   length ex_pre = length ex_audio \<and> ex_pre ! 0 = ex_audio ! 0 \<and>
   ex_pre ! 1 = fl_sub (ex_audio ! 1) (fl_mul default_coeff (ex_audio ! 0))"
proof -
  have h: "ex_audio \<noteq> []"
    by (simp add: ex_audio_def)
  have e: "pre_emphasis ex_audio default_coeff = Inr ex_pre"
    by (simp add: pre_emphasis_def ex_audio_def ex_pre_def default_coeff_def fl_sub_def)
  have l: "(1::nat) < length ex_audio"
    by (simp add: ex_audio_def)
  from pre_emphasis_nonempty[OF h, of default_coeff] obtain y where
    y: "pre_emphasis ex_audio default_coeff = Inr y" "length y = length ex_audio"
      "y ! 0 = ex_audio ! 0"
      "\<forall>i. 1 \<le> i \<and> i < length ex_audio \<longrightarrow>
           y ! i = fl_sub (ex_audio ! i) (fl_mul default_coeff (ex_audio ! (i - 1)))"
    by blast
  from y(1) e have "y = ex_pre" by simp
  moreover from y(4) l have "y ! 1 = fl_sub (ex_audio ! 1) (fl_mul default_coeff (ex_audio ! (1 - 1)))"
    by blast
  ultimately show ?thesis
    using h e y(2,3) by simp
qed

section \<open>The pitch track\<close>

lemma fundamental_period_values:
  "v \<in> set (fundamental_period ffs) \<Longrightarrow> fl_isfinite v \<and> fl_less (Fin 0) v"
  by (auto simp: fundamental_period_def)

lemma fundamental_period_length: "length (fundamental_period ffs) \<le> length ffs"
  unfolding fundamental_period_def
  by (metis (no_types, lifting) length_filter_le length_map le_trans)

lemma fundamental_frequencies_length:
  "fundamental_frequencies pt = Inr ffs \<Longrightarrow> length ffs = n_frames pt"
  by (auto simp: fundamental_frequencies_def split: if_splits)

lemma fl_positive_finite: "fl_isfinite v \<Longrightarrow> fl_less (Fin 0) v \<Longrightarrow> \<exists>r. v = Fin r \<and> 0 < r"
  by (cases v) auto

lemma ex_fundamental_frequencies:
  "fundamental_frequencies ex_pip = Inr [Fin 0, Fin 200, Fin 400]"
  by (simp add: fundamental_frequencies_def ex_pip_def argmax_def upt_rec fl_le_def)

lemma ex_fundamental_period:
  "fundamental_period [Fin 0, Fin 200, Fin 400] = [Fin (1 / 200), Fin (1 / 400)]"
  by (simp add: fundamental_period_def inf_of_sign_def)

lemma ex_extract:
  "extract_audio_features ex_env y sr =
     Inr ([[Fin 0]], [Fin (1 / 200), Fin (1 / 400)], [[Fin 0]], [[Fin 0]])"
  by (simp add: extract_audio_features_def ex_env_def ex_fundamental_frequencies
      ex_fundamental_period)

lemma fundamental_frequencies_eq:
  assumes "0 < n_bins pt"
  shows "fundamental_frequencies pt =
     Inr (map (\<lambda>t. pitches pt (argmax (map (\<lambda>i. magnitudes pt i t) [0..<n_bins pt])) t)
            [0..<n_frames pt])"
  using assms by (simp add: fundamental_frequencies_def)

lemma fundamental_period_frames:
  assumes "0 < n_bins pt" and "fundamental_frequencies pt = Inr ffs"
  shows "fundamental_period ffs = filter valid_period (map (frame_period pt) [0..<n_frames pt])"
proof -
  have "ffs = map (\<lambda>t. pitches pt (argmax (map (\<lambda>i. magnitudes pt i t) [0..<n_bins pt])) t)
                [0..<n_frames pt]"
    using fundamental_frequencies_eq[OF assms(1)] assms(2) by simp
  then have m: "map (\<lambda>f. fl_div (Fin 1) f) ffs = map (frame_period pt) [0..<n_frames pt]"
    by (simp add: frame_period_def comp_def)
  have "filter (\<lambda>v. fl_less (Fin 0) v) (filter fl_isfinite xs) = filter valid_period xs" for xs
    by (induction xs) (simp_all add: valid_period_def)
  then show ?thesis
    unfolding fundamental_period_def m by simp
qed

lemma ex_frame_period: "frame_period ex_pip t = fl_div (Fin 1) (Fin (200 * real t))"
  by (simp add: frame_period_def ex_pip_def argmax_def upt_rec fl_le_def)

lemma ex_frame_period_list:
  "map (frame_period ex_pip) [0..<n_frames ex_pip] = [PInf, Fin (1 / 200), Fin (1 / 400)]"
proof -
  have "[0..<n_frames ex_pip] = [0, 1, 2]"
    by (simp add: ex_pip_def upt_rec)
  then show ?thesis
    by (simp add: ex_frame_period inf_of_sign_def)
qed

lemma ex_frame_periods:
  "filter valid_period (map (frame_period ex_pip) [0..<n_frames ex_pip]) =
     [Fin (1 / 200), Fin (1 / 400)]"
proof -
  have f: "fundamental_frequencies ex_pip = Inr [Fin 0, Fin 200, Fin 400]"
    by (rule ex_fundamental_frequencies)
  have "0 < n_bins ex_pip"
    by (simp add: ex_pip_def)
  from fundamental_period_frames[OF this f] show ?thesis
    by (simp add: ex_fundamental_period)
qed

text \<open>
  Claim C8. Whenever the four library calls return and the pitch tracker has at least
  one frequency bin, \<open>extract_audio_features\<close> returns, and the fundamental period it
  returns is the list of the per-frame periods \<open>1 / f0\<close>, in the order of the frames,
  with the entries that are not finite or not positive left out and nothing put in
  their place. So every value of it is a finite, strictly positive number, every valid
  per-frame period occurs in it, and there are at most as many values as the pitch
  tracker has frames.
\<close>

theorem fundamental_period_finite_positive:
  assumes "melspectrogram E audio_data sample_rate = Inr fbank_features"
    and "piptrack E audio_data sample_rate = Inr pt" and "0 < n_bins pt"
    and "spectral_centroid E audio_data sample_rate = Inr centroid"
    and "spectral_contrast E audio_data sample_rate = Inr contrast"
  shows "\<exists>period. extract_audio_features E audio_data sample_rate =
                     Inr (fbank_features, period, centroid, contrast) \<and>
           period = filter valid_period (map (frame_period pt) [0..<n_frames pt]) \<and>
           (\<forall>v \<in> set period. fl_isfinite v \<and> fl_less (Fin 0) v \<and> (\<exists>r. v = Fin r \<and> 0 < r)) \<and>
           (\<forall>t < n_frames pt. valid_period (frame_period pt t) \<longrightarrow> frame_period pt t \<in> set period) \<and>
           length period \<le> n_frames pt"
proof -
  from assms(3) obtain ffs where f: "fundamental_frequencies pt = Inr ffs"
    by (simp add: fundamental_frequencies_def)
  define period where "period = fundamental_period ffs"
  have e: "extract_audio_features E audio_data sample_rate =
             Inr (fbank_features, period, centroid, contrast)"
    using assms(1,2,4,5) f by (simp add: extract_audio_features_def period_def)
  have q: "period = filter valid_period (map (frame_period pt) [0..<n_frames pt])"
    unfolding period_def by (rule fundamental_period_frames[OF assms(3) f])
  have l: "length period \<le> n_frames pt"
    using fundamental_period_length[of ffs] fundamental_frequencies_length[OF f]
    by (simp add: period_def)
  have v: "fl_isfinite v \<and> fl_less (Fin 0) v \<and> (\<exists>r. v = Fin r \<and> 0 < r)"
    if "v \<in> set period" for v
    using fundamental_period_values[of v ffs] fl_positive_finite[of v] that
    unfolding period_def by blast
  have k: "frame_period pt t \<in> set period"
    if "t < n_frames pt" "valid_period (frame_period pt t)" for t
    using that unfolding q by simp
  show ?thesis
    using e q l v k by blast
qed

theorem fundamental_period_finite_positive_witness:
  "melspectrogram ex_env ex_audio 16000 = Inr [[Fin 0]] \<and>
   piptrack ex_env ex_audio 16000 = Inr ex_pip \<and> 0 < n_bins ex_pip \<and>
   spectral_centroid ex_env ex_audio 16000 = Inr [[Fin 0]] \<and>
   spectral_contrast ex_env ex_audio 16000 = Inr [[Fin 0]] \<and>
   extract_audio_features ex_env ex_audio 16000 =
     Inr ([[Fin 0]], [Fin (1 / 200), Fin (1 / 400)], [[Fin 0]], [[Fin 0]]) \<and>
   map (frame_period ex_pip) [0..<n_frames ex_pip] = [PInf, Fin (1 / 200), Fin (1 / 400)] \<and>
   filter valid_period (map (frame_period ex_pip) [0..<n_frames ex_pip]) =
     [Fin (1 / 200), Fin (1 / 400)] \<and>
   list_all (\<lambda>v. fl_isfinite v \<and> fl_less (Fin 0) v) [Fin (1 / 200), Fin (1 / 400)] \<and>
   length [Fin (1 / 200), Fin (1 / 400)] \<le> n_frames ex_pip \<and> n_frames ex_pip = 3"
proof -
  have h1: "melspectrogram ex_env ex_audio 16000 = Inr [[Fin 0]]"
    and h2: "piptrack ex_env ex_audio 16000 = Inr ex_pip"
    and h4: "spectral_centroid ex_env ex_audio 16000 = Inr [[Fin 0]]"
    and h5: "spectral_contrast ex_env ex_audio 16000 = Inr [[Fin 0]]"
    by (simp_all add: ex_env_def)
  have h3: "0 < n_bins ex_pip" and n: "n_frames ex_pip = 3"
    by (simp_all add: ex_pip_def)
  have e: "extract_audio_features ex_env ex_audio 16000 =
     Inr ([[Fin 0]], [Fin (1 / 200), Fin (1 / 400)], [[Fin 0]], [[Fin 0]])"
    by (rule ex_extract)
  have m: "map (frame_period ex_pip) [0..<n_frames ex_pip] =
             [PInf, Fin (1 / 200), Fin (1 / 400)]"
    by (rule ex_frame_period_list)
  from fundamental_period_finite_positive[OF h1 h2 h3 h4 h5] obtain period where
    p: "extract_audio_features ex_env ex_audio 16000 = Inr ([[Fin 0]], period, [[Fin 0]], [[Fin 0]])"
       "period = filter valid_period (map (frame_period ex_pip) [0..<n_frames ex_pip])"
       "\<forall>v \<in> set period. fl_isfinite v \<and> fl_less (Fin 0) v \<and> (\<exists>r. v = Fin r \<and> 0 < r)"
       "length period \<le> n_frames ex_pip"
    by blast
  from p(1) e have q: "period = [Fin (1 / 200), Fin (1 / 400)]" by simp
  have f: "filter valid_period (map (frame_period ex_pip) [0..<n_frames ex_pip]) =
             [Fin (1 / 200), Fin (1 / 400)]"
    using p(2) q by simp
  have a: "list_all (\<lambda>v. fl_isfinite v \<and> fl_less (Fin 0) v) [Fin (1 / 200), Fin (1 / 400)]"
    using p(3) unfolding q list_all_iff by blast
  have l: "length [Fin (1 / 200), Fin (1 / 400) :: fl] \<le> n_frames ex_pip"
    using p(4) unfolding q .
  show ?thesis
    using h1 h2 h3 h4 h5 e m f a l n by (intro conjI)
qed

section \<open>Constant-Q cepstral coefficients\<close>

lemma not_constant_iff:
  "not_constant m \<longleftrightarrow> (\<exists>x \<in> set (concat m). \<exists>y \<in> set (concat m). x \<noteq> y)"
  by (simp add: not_constant_def list_ex_iff)

lemma normalize_cqcc_range:
  assumes nc: "not_constant u"
  shows "\<exists>out. normalize_cqcc u = Inr out \<and> map length out = map length u \<and>
           Fin 0 \<in> set (concat out) \<and> Fin 1 \<in> set (concat out) \<and>
           (\<forall>v \<in> set (concat out). \<exists>r. v = Fin r \<and> 0 \<le> r \<and> r \<le> 1)"
proof -
  define xs where "xs = concat u"
  define mn where "mn = Min (set xs)"
  define hi where "hi = Max (set xs)"
  define shifted where "shifted = map (map (\<lambda>x. x - mn)) u"
  define mx where "mx = Max (set (concat shifted))"
  define out where "out = map (map (\<lambda>x. fl_div (Fin x) (Fin mx))) shifted"
  from nc obtain x y where xy: "x \<in> set xs" "y \<in> set xs" "x \<noteq> y"
    unfolding not_constant_iff xs_def by blast
  then have ne: "xs \<noteq> []" by auto
  have mn_in: "mn \<in> set xs" and hi_in: "hi \<in> set xs"
    unfolding mn_def hi_def using ne by (simp_all add: Min_in Max_in)
  have mn_le: "mn \<le> z" and le_hi: "z \<le> hi" if "z \<in> set xs" for z
    unfolding mn_def hi_def using that by simp_all
  have "mn < hi"
    using xy mn_le[of x] mn_le[of y] le_hi[of x] le_hi[of y] by linarith
  have cs: "concat shifted = map (\<lambda>x. x - mn) xs"
    by (simp add: shifted_def concat_map_map xs_def)
  have mx_eq: "mx = hi - mn"
  proof -
    have "Max ((\<lambda>x. x - mn) ` set xs) = hi - mn"
    proof (rule Max_eqI)
      show "finite ((\<lambda>x. x - mn) ` set xs)" by simp
      show "hi - mn \<in> (\<lambda>x. x - mn) ` set xs" using hi_in by blast
      show "\<And>y. y \<in> (\<lambda>x. x - mn) ` set xs \<Longrightarrow> y \<le> hi - mn"
        using le_hi by auto
    qed
    then show ?thesis by (simp add: mx_def cs)
  qed
  then have mx_pos: "0 < mx" using \<open>mn < hi\<close> by simp
  have co: "concat out = map (\<lambda>x. Fin ((x - mn) / mx)) xs"
    using mx_pos by (simp add: out_def concat_map_map cs)
  have res: "normalize_cqcc u = Inr out"
    using ne
    by (simp add: normalize_cqcc_def Let_def out_def mx_def shifted_def mn_def xs_def)
  have shape: "map length out = map length u"
    by (simp add: out_def shifted_def comp_def)
  have zero: "Fin 0 \<in> set (concat out)"
    unfolding co using mn_in by force
  have one: "Fin 1 \<in> set (concat out)"
  proof -
    have "Fin ((hi - mn) / mx) \<in> set (concat out)"
      unfolding co using hi_in by force
    then show ?thesis using mx_eq mx_pos by simp
  qed
  have rng: "\<exists>r. v = Fin r \<and> 0 \<le> r \<and> r \<le> 1" if "v \<in> set (concat out)" for v
  proof -
    from that obtain z where z: "z \<in> set xs" "v = Fin ((z - mn) / mx)"
      unfolding co by auto
    have "0 \<le> (z - mn) / mx"
      using mn_le[OF z(1)] mx_pos by simp
    moreover have "(z - mn) / mx \<le> 1"
      using le_hi[OF z(1)] mx_pos mx_eq by simp
    ultimately show ?thesis using z(2) by blast
  qed
  show ?thesis
    using res shape zero one rng by blast
qed

text \<open>Without the condition the division is 0 / 0: a constant array becomes \<open>nan\<close>.\<close>

lemma normalize_cqcc_constant: "normalize_cqcc [[a, a]] = Inr [[NaN, NaN]]"
  by (simp add: normalize_cqcc_def)

lemma ex_log_raw: "log_magnitude (ex_cqt ex_audio) = [[0, ln 2]]"
  by (simp add: log_magnitude_def ex_cqt_def)

lemma ex_log_pre: "log_magnitude (ex_cqt ex_pre) = [[ln 2, 0]]"
  by (simp add: log_magnitude_def ex_cqt_def ex_pre_def ex_audio_def)

lemma ex_norm_raw: "normalize_cqcc [[0, ln 2]] = Inr [[Fin 0, Fin 1]]"
  by (simp add: normalize_cqcc_def Let_def)

lemma ex_norm_pre: "normalize_cqcc [[ln 2, 0]] = Inr [[Fin 1, Fin 0]]"
  by (simp add: normalize_cqcc_def Let_def)

lemma ex_cqcc_raw: "compute_cqcc ex_env ex_audio sr 6 6 2048 = Inr [[Fin 0, Fin 1]]"
  by (simp add: compute_cqcc_def ex_env_def ex_log_raw ex_norm_raw)

lemma ex_cqcc_pre: "compute_cqcc ex_env ex_pre sr 6 6 2048 = Inr [[Fin 1, Fin 0]]"
  by (simp add: compute_cqcc_def ex_env_def ex_log_pre ex_norm_pre)

text \<open>
  Claim C7. When the transform and the cepstral step return and the unnormalized
  coefficients are not all equal, \<open>compute_cqcc\<close> returns an array of the same shape
  whose values are all finite and between 0 and 1, and both 0 and 1 occur in it: its
  minimum is 0 and its maximum is 1.
\<close>

theorem compute_cqcc_unit_range:
  assumes "cqt E audio_data sample_rate n_bands hop_length = Inr c"
    and "mfcc_S E (log_magnitude c) n_coeffs = Inr u"
    and "not_constant u"
  shows "\<exists>out. compute_cqcc E audio_data sample_rate n_bands n_coeffs hop_length = Inr out \<and>
           map length out = map length u \<and>
           Fin 0 \<in> set (concat out) \<and> Fin 1 \<in> set (concat out) \<and>
           (\<forall>v \<in> set (concat out). \<exists>r. v = Fin r \<and> 0 \<le> r \<and> r \<le> 1)"
  using normalize_cqcc_range[OF assms(3)] assms(1,2)
  by (simp add: compute_cqcc_def)

theorem compute_cqcc_unit_range_witness:
  "cqt ex_env ex_audio 16000 6 2048 = Inr (ex_cqt ex_audio) \<and>
   mfcc_S ex_env (log_magnitude (ex_cqt ex_audio)) 6 = Inr [[0, ln 2]] \<and>
   not_constant [[0, ln 2]] \<and>
   compute_cqcc ex_env ex_audio 16000 6 6 2048 = Inr [[Fin 0, Fin 1]] \<and>
   (\<exists>out. compute_cqcc ex_env ex_audio 16000 6 6 2048 = Inr out \<and>
      Fin 0 \<in> set (concat out) \<and> Fin 1 \<in> set (concat out))"
proof -
  have h1: "cqt ex_env ex_audio 16000 6 2048 = Inr (ex_cqt ex_audio)"
    by (simp add: ex_env_def)
  have h2: "mfcc_S ex_env (log_magnitude (ex_cqt ex_audio)) 6 = Inr [[0, ln 2]]"
    by (simp add: ex_env_def ex_log_raw)
  have h3: "not_constant [[0, ln 2]]"
    by (simp add: not_constant_def)
  show ?thesis
    using h1 h2 h3 ex_cqcc_raw[of 16000] compute_cqcc_unit_range[OF h1 h2 h3]
    by blast
qed

section \<open>One clip of pre\_process\_2.py\<close>

lemma ex_pre_emphasis: "pre_emphasis ex_audio default_coeff = Inr ex_pre"
  by (simp add: pre_emphasis_def ex_audio_def ex_pre_def default_coeff_def fl_sub_def)

lemma ex_load:
  "load ex_env ''wav/good.wav'' = Inr (ex_audio, 16000)"
  "load ex_env ''wav/bad.wav'' = Inl DecodeFailure"
  by (simp_all add: ex_env_def)

text \<open>
  In every environment, the fourth array of a processed clip is \<open>compute_cqcc\<close> of the
  waveform as loaded.
\<close>

lemma process_audio_cqcc_from_raw:
  assumes "process_audio E file_path hop_length win_length =
             (out, Inr (Some (lsf_result, mfccs, lpc_col, cqcc_features)))"
    and "load E file_path = Inr (audio_data, sample_rate)"
  shows "compute_cqcc E audio_data sample_rate 6 6 2048 = Inr cqcc_features"
  using assms
  by (auto simp: process_audio_def split: sum.splits if_splits prod.splits)

lemma ex_process_good:
  "process_audio ex_env ''wav/good.wav'' 256 512 =
     ([], Inr (Some (replicate 11 [0] @ [[pi]], [[Fin 0]], map (\<lambda>v. [v]) (ex_coeffs 12),
                     [[Fin 0, Fin 1]])))"
proof -
  have f: "\<not> (list_ex fl_isnan ex_pre \<or> list_ex fl_isinf ex_pre)"
    by (simp add: ex_pre_def)
  have m: "compute_mfcc ex_env ex_pre 16000 n = Inr [[Fin 0]]" for n
    by (simp add: compute_mfcc_def ex_env_def)
  have c: "compute_lpc ex_env ex_pre = Inr (map (\<lambda>v. [v]) (ex_coeffs 12))"
    by (simp add: compute_lpc_def ex_env_def)
  show ?thesis
    using f
    by (simp add: process_audio_def ex_load ex_pre_emphasis ex_compute_lsf m c ex_cqcc_raw)
qed

lemma ex_process_bad: "process_audio ex_env ''wav/bad.wav'' 256 512 = ([], Inl DecodeFailure)"
  by (simp add: process_audio_def ex_load)

text \<open>
  Claim C9 holds of the other extractors and not of this one. \<open>process_audio\<close> passes
  the pre-emphasized waveform to \<open>compute_lsf\<close>, \<open>compute_mfcc\<close> and \<open>compute_lpc\<close>,
  and the waveform as loaded to \<open>compute_cqcc\<close>. On the concrete clip the constant-Q
  transform tells the two waveforms apart, and the array in the result is the one of the
  raw waveform.
\<close>

theorem process_audio_cqcc_input_is_raw:
  "load ex_env ''wav/good.wav'' = Inr (ex_audio, 16000) \<and>
   pre_emphasis ex_audio default_coeff = Inr ex_pre \<and>
   process_audio ex_env ''wav/good.wav'' 256 512 =
     ([], Inr (Some (replicate 11 [0] @ [[pi]], [[Fin 0]], map (\<lambda>v. [v]) (ex_coeffs 12),
                     [[Fin 0, Fin 1]]))) \<and>
   compute_cqcc ex_env ex_audio 16000 6 6 2048 = Inr [[Fin 0, Fin 1]] \<and>
   compute_cqcc ex_env ex_pre 16000 6 6 2048 = Inr [[Fin 1, Fin 0]]"
  by (simp add: ex_load ex_pre_emphasis ex_process_good ex_cqcc_raw ex_cqcc_pre)

section \<open>The two batches\<close>

lemma endswith_ex:
  "endswith ''good.wav'' ''.wav''" "endswith ''bad.wav'' ''.wav''"
  "\<not> endswith ''notes.txt'' ''.wav''"
  by (simp_all add: endswith_def)

lemma path_join_ex:
  "path_join ''wav'' ''good.wav'' = ''wav/good.wav''"
  "path_join ''wav'' ''bad.wav'' = ''wav/bad.wav''"
  "path_join ''wav-feature'' ''good.jpg'' = ''wav-feature/good.jpg''"
  "path_join ''wav_features'' ''good.jpg'' = ''wav_features/good.jpg''"
  by (simp_all add: path_join_def)

lemma splitext_root_ex: "splitext_root ''good.wav'' = ''good''"
  by (simp add: splitext_root_def rfind_def upt_rec Let_def)

lemma ex_fs:
  "path_exists ex_env d"
  "listdir ex_env d = Inr [''bad.wav'', ''notes.txt'', ''good.wav'']"
  by (simp_all add: ex_env_def)

lemma ex_save_spectrograms: "save_spectrograms ex_env b path = ([SaveFig path], None)"
  by (simp add: save_spectrograms_def ex_env_def)

lemma ex_visualize:
  "visualize_and_save_features ex_env f p c k path = ([SaveFig path], None)"
  by (simp add: visualize_and_save_features_def ex_env_def)

subsection \<open>pre\_process\_1.py: every clip is a unit of its own\<close>

text \<open>
  The events of the loop are the events of its iterations, one after the other, and
  an iteration depends on its own file only. With the output directory in place and the
  listing read, \<open>process_audio_directory\<close> ends without an exception, whatever happens
  to the clips.
\<close>

lemma directory_loop_concat:
  "directory_loop E input_directory output_directory names =
   concat (map (directory_step E input_directory output_directory) names)"
  by (induction names) simp_all

lemma process_audio_directory_never_aborts:
  assumes "path_exists E output_directory \<or> makedirs E output_directory = None"
    and "listdir E input_directory = Inr names"
  shows "snd (process_audio_directory E input_directory output_directory) = None"
  using assms by (auto simp: process_audio_directory_def)

lemma ex_try_body:
  "try_body ex_env ''wav'' ''wav_features'' ''good.wav'' =
     ([SaveFig ''wav_features/good.jpg'',
       Print ''Successfully processed and saved feature image: good.jpg''], None)"
  "try_body ex_env ''wav'' ''wav_features'' ''bad.wav'' = ([], Some DecodeFailure)"
  by (simp_all add: try_body_def path_join_ex ex_load ex_extract splitext_root_ex ex_visualize
      Let_def)

lemma ex_process_audio_directory:
  "process_audio_directory ex_env ''wav'' ''wav_features'' =
     ([Print ''Error processing bad.wav: DecodeFailure'',
       SaveFig ''wav_features/good.jpg'',
       Print ''Successfully processed and saved feature image: good.jpg''], None)"
proof -
  have "directory_loop ex_env ''wav'' ''wav_features'' [''bad.wav'', ''notes.txt'', ''good.wav'']
     = [Print ''Error processing bad.wav: DecodeFailure'',
        SaveFig ''wav_features/good.jpg'',
        Print ''Successfully processed and saved feature image: good.jpg'']"
    by (simp add: directory_step_def endswith_ex ex_try_body)
  then show ?thesis
    by (simp add: process_audio_directory_def ex_fs)
qed

subsection \<open>pre\_process\_2.py: an exception ends the batch\<close>

lemma turn_loop_abort:
  assumes "endswith filename ''.wav''"
    and "process_audio E (path_join input_directory filename) 256 512 = (out, Inl e)"
  shows "turn_loop E input_directory output_directory (filename # rest) = (out, Some e)"
  using assms by simp

lemma ex_turn_loop:
  "turn_loop ex_env ''wav'' ''wav-feature'' [''bad.wav'', ''notes.txt'', ''good.wav'']
     = ([], Some DecodeFailure)"
  by (simp add: endswith_ex path_join_ex ex_process_bad)

lemma ex_turn_loop_good:
  "turn_loop ex_env ''wav'' ''wav-feature'' [''good.wav'']
     = ([SaveFig ''wav-feature/good.jpg'',
         Print ''Saved spectrograms for good.wav to wav-feature/good.jpg''], None)"
  by (simp add: endswith_ex path_join_ex ex_process_good ex_save_spectrograms splitext_root_ex
      Let_def)

text \<open>
  Claim C5 holds of \<open>process_audio_directory\<close>, whose loop body is inside
  \<open>try ... except Exception\<close>, and not of \<open>turn\<close>, whose loop body is not. In a
  directory that lists \<open>bad.wav\<close>, which cannot be decoded, before \<open>good.wav\<close>,
  \<open>turn\<close> ends with the exception of the decoder and has written nothing, although the
  loop on \<open>good.wav\<close> alone writes its image; \<open>process_audio_directory\<close> on the same
  directory reports the bad clip and writes the image of the good one.
\<close>

theorem turn_aborts_on_decode_failure:
  "listdir ex_env ''wav'' = Inr [''bad.wav'', ''notes.txt'', ''good.wav''] \<and>
   load ex_env ''wav/bad.wav'' = Inl DecodeFailure \<and>
   turn ex_env ''wav'' ''wav-feature'' = ([], Some DecodeFailure) \<and>
   turn_loop ex_env ''wav'' ''wav-feature'' [''good.wav'']
     = ([SaveFig ''wav-feature/good.jpg'',
         Print ''Saved spectrograms for good.wav to wav-feature/good.jpg''], None) \<and>
   process_audio_directory ex_env ''wav'' ''wav_features'' =
     ([Print ''Error processing bad.wav: DecodeFailure'',
       SaveFig ''wav_features/good.jpg'',
       Print ''Successfully processed and saved feature image: good.jpg''], None)"
proof -
  have "turn ex_env ''wav'' ''wav-feature'' = ([], Some DecodeFailure)"
    by (simp add: turn_def ex_fs ex_turn_loop del: turn_loop.simps)
  then show ?thesis
    by (simp add: ex_fs ex_load ex_turn_loop_good ex_process_audio_directory
        del: turn_loop.simps)
qed

end
